theory Spec2Isabelle
  imports Complex_Main "HOL-Library.Word"
begin

unbundle bit_operations_syntax

section \<open>The constant table (constants.py)\<close>

text \<open>Only the codes that windows.py reads are listed; the values are those of the table.\<close>

definition WM_NCHITTEST :: int where "WM_NCHITTEST = 0x0084"
definition WM_NCCALCSIZE :: int where "WM_NCCALCSIZE = 0x0083"
definition WM_NCPAINT :: int where "WM_NCPAINT = 0x0085"
definition WM_NCACTIVATE :: int where "WM_NCACTIVATE = 0x0086"
definition WM_GETMINMAXINFO :: int where "WM_GETMINMAXINFO = 0x0024"
definition WM_SIZE :: int where "WM_SIZE = 0x0005"
definition WM_WINDOWPOSCHANGED :: int where "WM_WINDOWPOSCHANGED = 0x0047"
definition WM_EXITSIZEMOVE :: int where "WM_EXITSIZEMOVE = 0x0232"
definition WM_DPICHANGED :: int where "WM_DPICHANGED = 0x02E0"
definition WM_NCLBUTTONDOWN :: int where "WM_NCLBUTTONDOWN = 0x00A1"
definition WM_NCLBUTTONUP :: int where "WM_NCLBUTTONUP = 0x00A2"
definition WM_NCLBUTTONDBLCLK :: int where "WM_NCLBUTTONDBLCLK = 0x00A3"
definition WM_SETCURSOR :: int where "WM_SETCURSOR = 0x0020"

definition HTCLIENT :: int where "HTCLIENT = 1"
definition HTCAPTION :: int where "HTCAPTION = 2"
definition HTMAXBUTTON :: int where "HTMAXBUTTON = 9"
definition HTLEFT :: int where "HTLEFT = 10"
definition HTRIGHT :: int where "HTRIGHT = 11"
definition HTTOP :: int where "HTTOP = 12"
definition HTTOPLEFT :: int where "HTTOPLEFT = 13"
definition HTTOPRIGHT :: int where "HTTOPRIGHT = 14"
definition HTBOTTOM :: int where "HTBOTTOM = 15"
definition HTBOTTOMLEFT :: int where "HTBOTTOMLEFT = 16"
definition HTBOTTOMRIGHT :: int where "HTBOTTOMRIGHT = 17"

definition SW_MAXIMIZE :: int where "SW_MAXIMIZE = 3"
definition SW_RESTORE :: int where "SW_RESTORE = 9"

definition IDC_HAND :: int where "IDC_HAND = 32649"
definition MONITOR_DEFAULTTONEAREST :: int where "MONITOR_DEFAULTTONEAREST = 2"

definition DWMWA_WINDOW_CORNER_PREFERENCE :: int where "DWMWA_WINDOW_CORNER_PREFERENCE = 33"
definition DWMWCP_DONOTROUND :: int where "DWMWCP_DONOTROUND = 1"
definition DWMWCP_ROUND :: int where "DWMWCP_ROUND = 2"

section \<open>Data: native records, exceptions, the styler object and its environment\<close>

text \<open>
  The native message record (wintypes.MSG) as the dispatcher reads it: the message code and
  the two parameters, each read into a Python integer. The pointer the toolkit passes and the
  overlay \<open>MSG.from_address\<close> are not modelled; the dispatcher receives the record itself.
\<close>

record msg =
  message :: int
  wParam :: int
  lParam :: int

text \<open>LONG fields of the native structures are 32-bit; a store of a Python integer keeps
  its low 32 bits, a read gives the signed value.\<close>

type_synonym LONG = "32 word"

record POINT =
  pt_x :: LONG
  pt_y :: LONG

record RECT =
  rc_left :: LONG
  rc_top :: LONG
  rc_right :: LONG
  rc_bottom :: LONG

record MINMAXINFO =
  ptReserved :: POINT
  ptMaxSize :: POINT
  ptMaxPosition :: POINT
  ptMinTrackSize :: POINT
  ptMaxTrackSize :: POINT

text \<open>
  Exceptions are values. The type stands for the instances of subclasses of Python's
  \<open>Exception\<close>: the classes the source names in its handlers, and \<open>OtherError\<close> for every
  other subclass. The handler \<open>except Exception\<close> catches all of them.
\<close>

datatype exn =
  OSError | ValueError | OverflowError | AttributeError | TypeError | RuntimeError | OtherError

text \<open>The calls that leave the styler: each is a place where the callee may raise.\<close>

datatype site =
  GetCursor | LoadCursorW | SetCursor | IsZoomed | ShowWindow | MonitorFromWindow
  | GetMonitorInfoW | SetWindowRgn | DwmSetWindowAttribute | GetWindowRect
  | CreateRoundRectRgn | DeleteObject
  | QCursor_pos | mapFromGlobal | width | height | devicePixelRatio
  | minimumWidth | minimumHeight | setToolTip
  | time_time | QTimer_stop | QTimer_new | QTimer_singleShot

text \<open>What the operating system was asked to do, in order.\<close>

datatype oscall =
  Call_ShowWindow int int
  | Call_SetCursor int
  | Call_CreateRoundRectRgn int int int
  | Call_SetWindowRgn int int
  | Call_DwmSetWindowAttribute int int int
  | Call_DeleteObject int

text \<open>A \<open>QTimer\<close> object: the only part of it the styler touches is whether it runs.\<close>

record qtimer =
  active :: bool

text \<open>The maximize button registered for state updates, as \<open>hasattr\<close> sees it.\<close>

record button =
  has_setIcon :: bool
  has_setToolTip :: bool

text \<open>
  The fields of a \<open>WindowsStyler\<close> object. The two callables it holds are functions that
  return a value or raise: the previously installed native-event handler, and the optional
  title-bar hook (global position to an optional answer).
\<close>

record styler =
  orig_native :: "string \<Rightarrow> msg \<Rightarrow> exn + (bool \<times> int)"
  titlebar_hook :: "(int \<times> int \<Rightarrow> exn + (bool \<times> int) option) option"
  hwnd :: "int option"
  BORDER_WIDTH :: int
  TITLE_BAR_FALLBACK_HEIGHT :: int
  TITLE_BAR_FALLBACK :: bool
  ROUND_CORNER_RADIUS :: int
  titlebar_maximize_button :: "button option"
  corner_timer :: "qtimer option"
  last_corner_apply :: rat
  is_windows_11 :: bool
  original_cursor :: "int option"

text \<open>
  The environment: the host window, the operating system and the toolkit's event loop.
  \<^item> \<open>faults\<close> says which outgoing call raises, and what;
  \<^item> \<open>clock\<close> is what \<open>time.time()\<close> returns, in seconds (a rational stands for the float);
  \<^item> \<open>win_id\<close> is the handle the system knows the window by, \<open>zoomed\<close> its maximized flag;
  \<^item> \<open>pending\<close> are the one-shot callbacks registered with the event loop and not yet run,
    each with the time of registration and its delay in milliseconds; every one of them
    calls \<open>_apply_corners_now\<close>, the only callback the styler registers after setup;
  \<^item> \<open>os_log\<close> records the directives issued to the system.
\<close>

record world =
  faults :: "site \<Rightarrow> exn option"
  clock :: rat
  win_id :: int
  zoomed :: bool
  cur_cursor :: int
  hand_cursor :: int
  nearest_monitor :: int
  monitor_info :: "(RECT \<times> RECT) option"
  minmaxinfo :: MINMAXINFO
  global_cursor_pos :: "int \<times> int"
  to_local :: "int \<times> int \<Rightarrow> int \<times> int"
  win_width :: int
  win_height :: int
  win_minimum_width :: int
  win_minimum_height :: int
  win_dpr :: rat
  window_rect :: "RECT option"
  dwm_hresult :: int
  fresh_region :: int
  tooltip :: string
  pending :: "(rat \<times> int) list"
  os_log :: "oscall list"

section \<open>Python values and control\<close>

text \<open>Truth value of an \<open>Optional[int]\<close>: \<open>None\<close> and \<open>0\<close> are false.\<close>

definition truthy :: "int option \<Rightarrow> bool" where
  "truthy v = (case v of None \<Rightarrow> False | Some n \<Rightarrow> n \<noteq> 0)"

text \<open>A handle argument given to a foreign function: \<open>None\<close> is passed as NULL.\<close>

definition as_handle :: "int option \<Rightarrow> int" where
  "as_handle v = (case v of None \<Rightarrow> 0 | Some n \<Rightarrow> n)"

text \<open>\<open>int(x)\<close> on a float truncates towards zero.\<close>

definition py_int :: "rat \<Rightarrow> int" where
  "py_int q = (if 0 \<le> q then \<lfloor>q\<rfloor> else \<lceil>q\<rceil>)"

text \<open>
  A method of the styler is a computation on the pair of the object and the environment
  that returns a value or raises; what it changed before raising stays changed.
\<close>

type_synonym sys = "styler \<times> world"
type_synonym 'a io = "sys \<Rightarrow> (exn + 'a) \<times> sys"

definition ret :: "'a \<Rightarrow> 'a io" where
  "ret v = (\<lambda>\<sigma>. (Inr v, \<sigma>))"

definition raise :: "exn \<Rightarrow> 'a io" where
  "raise e = (\<lambda>\<sigma>. (Inl e, \<sigma>))"

definition bind :: "'a io \<Rightarrow> ('a \<Rightarrow> 'b io) \<Rightarrow> 'b io" where
  "bind m f = (\<lambda>\<sigma>. case m \<sigma> of (Inl e, \<sigma>') \<Rightarrow> (Inl e, \<sigma>') | (Inr v, \<sigma>') \<Rightarrow> f v \<sigma>')"

text \<open>\<open>try: m except <classes>: h\<close>, the classes given as a predicate.\<close>

definition try_except :: "'a io \<Rightarrow> (exn \<Rightarrow> bool) \<Rightarrow> 'a io \<Rightarrow> 'a io" where
  "try_except m handled h =
     (\<lambda>\<sigma>. case m \<sigma> of
            (Inl e, \<sigma>') \<Rightarrow> if handled e then h \<sigma>' else (Inl e, \<sigma>')
          | (Inr v, \<sigma>') \<Rightarrow> (Inr v, \<sigma>'))"

definition any_Exception :: "exn \<Rightarrow> bool" where
  "any_Exception e = True"

definition self_get :: "(styler \<Rightarrow> 'a) \<Rightarrow> 'a io" where
  "self_get f = (\<lambda>(s, w). (Inr (f s), (s, w)))"

definition self_set :: "(styler \<Rightarrow> styler) \<Rightarrow> unit io" where
  "self_set f = (\<lambda>(s, w). (Inr (), (f s, w)))"

text \<open>A store into native memory the styler overlays: no call is made.\<close>

definition poke :: "(world \<Rightarrow> world) \<Rightarrow> unit io" where
  "poke f = (\<lambda>(s, w). (Inr (), (s, f w)))"

text \<open>An outgoing call: it raises if the environment says so, else it answers and acts.\<close>

definition extern :: "site \<Rightarrow> (world \<Rightarrow> 'a \<times> world) \<Rightarrow> 'a io" where
  "extern c f =
     (\<lambda>(s, w). case faults w c of
                 Some e \<Rightarrow> (Inl e, (s, w))
               | None \<Rightarrow> (case f w of (v, w') \<Rightarrow> (Inr v, (s, w'))))"

definition no_faults :: "world \<Rightarrow> bool" where
  "no_faults w = (faults w = (\<lambda>c. None))"

section \<open>The system calls the styler uses\<close>

text \<open>
  \<open>IsZoomed\<close> answers for the window's own handle only. \<open>ShowWindow\<close> with the maximize
  command maximizes that window, with the restore command it returns it to normal; on any
  other handle (NULL among them) it does nothing. Both are recorded.
\<close>

definition os_IsZoomed :: "int \<Rightarrow> bool io" where
  "os_IsZoomed h = extern IsZoomed (\<lambda>w. (h \<noteq> 0 \<and> h = win_id w \<and> zoomed w, w))"

definition os_ShowWindow :: "int \<Rightarrow> int \<Rightarrow> unit io" where
  "os_ShowWindow h cmd =
     extern ShowWindow (\<lambda>w.
       ((), w\<lparr>os_log := os_log w @ [Call_ShowWindow h cmd],
              zoomed := (if h \<noteq> 0 \<and> h = win_id w
                         then (if cmd = SW_MAXIMIZE then True
                               else if cmd = SW_RESTORE then False else zoomed w)
                         else zoomed w)\<rparr>))"

definition os_GetCursor :: "int io" where
  "os_GetCursor = extern GetCursor (\<lambda>w. (cur_cursor w, w))"

definition os_LoadCursorW :: "int \<Rightarrow> int \<Rightarrow> int io" where
  "os_LoadCursorW inst name =
     extern LoadCursorW (\<lambda>w. (if inst = 0 \<and> name = IDC_HAND then hand_cursor w else 0, w))"

definition os_SetCursor :: "int \<Rightarrow> unit io" where
  "os_SetCursor h =
     extern SetCursor (\<lambda>w. ((), w\<lparr>os_log := os_log w @ [Call_SetCursor h], cur_cursor := h\<rparr>))"

section \<open>Maximized state (windows.py, lines 391-411)\<close>

definition isMaximized :: "bool io" where
  "isMaximized =
     bind (self_get hwnd) (\<lambda>h.
       if \<not> truthy h then ret False
       else os_IsZoomed (as_handle h))"

section \<open>Button state and the debounced corner application (lines 352-389)\<close>

definition update_maximize_button_state :: "bool \<Rightarrow> unit io" where
  "update_maximize_button_state is_maximized =
     bind (self_get titlebar_maximize_button) (\<lambda>b.
       case b of
         None \<Rightarrow> ret ()
       | Some btn \<Rightarrow>
           try_except
             (if has_setToolTip btn
              then extern setToolTip (\<lambda>w.
                     ((), w\<lparr>tooltip := (if is_maximized then ''Restore'' else ''Maximize'')\<rparr>))
              else ret ())
             any_Exception (ret ()))"

text \<open>
  \<open>QTimer.singleShot\<close> is a static function of the toolkit. Called through the object
  \<open>self._corner_timer\<close> it registers a one-shot callback of its own with the event loop and
  does not start that object, so the object held in the field never runs and \<open>stop()\<close> on it
  cancels nothing. The model says exactly this: \<open>stop\<close> clears the \<open>active\<close> flag of the
  object in the field, \<open>singleShot\<close> appends to the callbacks the event loop holds.
\<close>

definition QTimer_static_singleShot :: "int \<Rightarrow> unit io" where
  "QTimer_static_singleShot delay =
     extern QTimer_singleShot (\<lambda>w. ((), w\<lparr>pending := pending w @ [(clock w, delay)]\<rparr>))"

definition debounced_apply_corners :: "unit io" where
  "debounced_apply_corners =
     bind (extern time_time (\<lambda>w. (clock w, w))) (\<lambda>current_time.
     bind (self_get corner_timer) (\<lambda>t.
     bind (case t of
             None \<Rightarrow> ret ()
           | Some tm \<Rightarrow>
               bind (extern QTimer_stop (\<lambda>w. ((), w))) (\<lambda>_.
               self_set (\<lambda>s. s\<lparr>corner_timer := Some (tm\<lparr>active := False\<rparr>)\<rparr>))) (\<lambda>_.
     bind (self_get last_corner_apply) (\<lambda>last.
     let time_since_last = current_time - last;
         delay = max 0 (50 - py_int (time_since_last * 1000))
     in
     bind (extern QTimer_new (\<lambda>w. ((), w))) (\<lambda>_.
     bind (self_set (\<lambda>s. s\<lparr>corner_timer := Some \<lparr>active = False\<rparr>\<rparr>)) (\<lambda>_.
     QTimer_static_singleShot delay))))))"

section \<open>The corner controller (lines 413-482)\<close>

definition os_SetWindowRgn :: "int \<Rightarrow> int \<Rightarrow> unit io" where
  "os_SetWindowRgn h rgn =
     extern SetWindowRgn (\<lambda>w. ((), w\<lparr>os_log := os_log w @ [Call_SetWindowRgn h rgn]\<rparr>))"

definition set_dwm_corner_preference :: "int \<Rightarrow> unit io" where
  "set_dwm_corner_preference preference =
     bind (self_get is_windows_11) (\<lambda>w11.
     bind (self_get hwnd) (\<lambda>h.
       if \<not> w11 then raise RuntimeError
       else if \<not> truthy h then raise RuntimeError
       else
         bind (extern DwmSetWindowAttribute (\<lambda>w.
                 (dwm_hresult w,
                  w\<lparr>os_log := os_log w @
                     [Call_DwmSetWindowAttribute (as_handle h)
                        DWMWA_WINDOW_CORNER_PREFERENCE preference]\<rparr>))) (\<lambda>hr.
         if hr \<noteq> 0 then raise OSError else ret ())))"

definition set_rounded_region :: "int \<Rightarrow> unit io" where
  "set_rounded_region radius =
     bind (self_get hwnd) (\<lambda>h.
       if \<not> truthy h then ret ()
       else
         bind (extern GetWindowRect (\<lambda>w. (window_rect w, w))) (\<lambda>r.
         case r of
           None \<Rightarrow> ret ()
         | Some rect \<Rightarrow>
             let width' = sint (rc_right rect) - sint (rc_left rect);
                 height' = sint (rc_bottom rect) - sint (rc_top rect)
             in
             bind (try_except
                     (bind (extern CreateRoundRectRgn (\<lambda>w.
                              (fresh_region w,
                               w\<lparr>os_log := os_log w @
                                  [Call_CreateRoundRectRgn width' height' radius]\<rparr>)))
                        (\<lambda>region. ret (Some region)))
                     any_Exception (ret None)) (\<lambda>created.
             case created of
               None \<Rightarrow> ret ()
             | Some region \<Rightarrow>
                 if region = 0 then ret ()
                 else
                   bind (try_except
                           (bind (os_SetWindowRgn (as_handle h) region) (\<lambda>_. ret True))
                           any_Exception (ret False)) (\<lambda>transferred.
                   if transferred then ret ()
                   else extern DeleteObject (\<lambda>w.
                          ((), w\<lparr>os_log := os_log w @ [Call_DeleteObject region]\<rparr>))))))"

definition apply_rounded_corners :: "unit io" where
  "apply_rounded_corners =
     bind (self_get hwnd) (\<lambda>h.
       if \<not> truthy h then ret ()
       else
         try_except
           (bind isMaximized (\<lambda>maximized.
            bind (self_get is_windows_11) (\<lambda>w11.
              if maximized then
                bind (os_SetWindowRgn (as_handle h) 0) (\<lambda>_.
                if w11 then set_dwm_corner_preference DWMWCP_DONOTROUND else ret ())
              else
                bind (if w11
                      then try_except
                             (bind (set_dwm_corner_preference DWMWCP_ROUND) (\<lambda>_. ret True))
                             any_Exception (ret False)
                      else ret False) (\<lambda>returned.
                if returned then ret ()
                else
                  bind (self_get ROUND_CORNER_RADIUS) (\<lambda>r.
                  bind (extern devicePixelRatio (\<lambda>w. (win_dpr w, w))) (\<lambda>d.
                  set_rounded_region (py_int (of_int r * d))))))))
           any_Exception (ret ()))"

definition apply_corners_now :: "unit io" where
  "apply_corners_now =
     bind (extern time_time (\<lambda>w. (clock w, w))) (\<lambda>t.
     bind (self_set (\<lambda>s. s\<lparr>last_corner_apply := t\<rparr>)) (\<lambda>_.
     apply_rounded_corners))"

section \<open>Show maximized, show normal (lines 391-405)\<close>

definition showMaximized :: "unit io" where
  "showMaximized =
     bind (self_get hwnd) (\<lambda>h.
       if \<not> truthy h then ret ()
       else bind (os_ShowWindow (as_handle h) SW_MAXIMIZE) (\<lambda>_.
            bind (update_maximize_button_state True) (\<lambda>_.
            debounced_apply_corners)))"

definition showNormal :: "unit io" where
  "showNormal =
     bind (self_get hwnd) (\<lambda>h.
       if \<not> truthy h then ret ()
       else bind (os_ShowWindow (as_handle h) SW_RESTORE) (\<lambda>_.
            bind (update_maximize_button_state False) (\<lambda>_.
            debounced_apply_corners)))"

section \<open>Min/max constraints (lines 216-284)\<close>

text \<open>
  The overlays \<open>MINMAXINFO.from_address\<close> and the local \<open>MONITORINFOEX\<close> are native memory:
  the record at \<open>lParam\<close> is \<open>minmaxinfo\<close> of the environment, and \<open>GetMonitorInfoW\<close>
  either fails (returns 0) or fills in the pair of \<open>rcMonitor\<close> and \<open>rcWork\<close>.
\<close>

definition store_LONG :: "int \<Rightarrow> LONG" where
  "store_LONG v = word_of_int v"

definition handle_getminmax :: "msg \<Rightarrow> (bool \<times> int) io" where
  "handle_getminmax m =
     (if lParam m = 0 then ret (False, 0)
      else
        try_except
          (bind (self_get hwnd) (\<lambda>h.
             if \<not> truthy h then ret (False, 0)
             else
               bind (extern MonitorFromWindow (\<lambda>w. (nearest_monitor w, w))) (\<lambda>monitor.
               if monitor = 0 then ret (False, 0)
               else
                 bind (extern GetMonitorInfoW (\<lambda>w. (monitor_info w, w))) (\<lambda>got.
                 case got of
                   None \<Rightarrow> ret (False, 0)
                 | Some (full, work) \<Rightarrow>
                     bind (poke (\<lambda>w. w\<lparr>minmaxinfo := (minmaxinfo w)
                             \<lparr>ptMaxPosition :=
                                \<lparr>pt_x = store_LONG (sint (rc_left work) - sint (rc_left full)),
                                 pt_y = store_LONG (sint (rc_top work) - sint (rc_top full))\<rparr>,
                              ptMaxSize :=
                                \<lparr>pt_x = store_LONG (sint (rc_right work) - sint (rc_left work)),
                                 pt_y = store_LONG (sint (rc_bottom work) - sint (rc_top work))\<rparr>\<rparr>\<rparr>))
                       (\<lambda>_.
                     bind (extern minimumWidth (\<lambda>w. (win_minimum_width w, w))) (\<lambda>mw.
                     bind (extern minimumHeight (\<lambda>w. (win_minimum_height w, w))) (\<lambda>mh.
                     let min_width = max mw 200; min_height = max mh 100 in
                     bind (poke (\<lambda>w. w\<lparr>minmaxinfo := (minmaxinfo w)
                             \<lparr>ptMinTrackSize :=
                                \<lparr>pt_x = store_LONG min_width,
                                 pt_y = store_LONG min_height\<rparr>\<rparr>\<rparr>)) (\<lambda>_.
                     ret (True, 0)))))))))
          (\<lambda>e. e = OSError \<or> e = ValueError)
          (ret (False, 0)))"

section \<open>Hit-testing (lines 286-350)\<close>

text \<open>A callable held by the styler, called: it returns or raises, and changes nothing here.\<close>

definition call :: "exn + 'a \<Rightarrow> 'a io" where
  "call r = (\<lambda>\<sigma>. (r, \<sigma>))"

definition dispatch_titlebar :: "int \<times> int \<Rightarrow> int \<Rightarrow> (bool \<times> int) io" where
  "dispatch_titlebar global_pos py =
     bind (self_get titlebar_hook) (\<lambda>hook.
     bind (case hook of
             None \<Rightarrow> ret None
           | Some f \<Rightarrow>
               try_except (call (f global_pos))
                 (\<lambda>e. e = AttributeError \<or> e = TypeError \<or> e = ValueError)
                 (ret None)) (\<lambda>result.
     case result of
       Some answer \<Rightarrow> ret answer
     | None \<Rightarrow>
         bind (self_get TITLE_BAR_FALLBACK) (\<lambda>fallback.
         bind (self_get TITLE_BAR_FALLBACK_HEIGHT) (\<lambda>fallback_height.
         if fallback \<and> py < fallback_height then ret (True, HTCAPTION)
         else ret (False, 0)))))"

definition handle_hittest :: "(bool \<times> int) io" where
  "handle_hittest =
     try_except
       (bind (extern QCursor_pos (\<lambda>w. (global_cursor_pos w, w))) (\<lambda>pt.
        bind (extern mapFromGlobal (\<lambda>w. (to_local w pt, w))) (\<lambda>local.
        let px = fst local; py = snd local in
        bind (extern width (\<lambda>w. (win_width w, w))) (\<lambda>ww.
        bind (extern height (\<lambda>w. (win_height w, w))) (\<lambda>hh.
        bind (extern devicePixelRatio (\<lambda>w. (win_dpr w, w))) (\<lambda>dpr.
        bind (self_get BORDER_WIDTH) (\<lambda>border.
        let bw = py_int (of_int border * dpr) in
        bind isMaximized (\<lambda>maximized.
        if maximized then dispatch_titlebar pt py
        else if px < bw \<and> py < bw then ret (True, HTTOPLEFT)
        else if px > ww - bw \<and> py < bw then ret (True, HTTOPRIGHT)
        else if px < bw \<and> py > hh - bw then ret (True, HTBOTTOMLEFT)
        else if px > ww - bw \<and> py > hh - bw then ret (True, HTBOTTOMRIGHT)
        else if py < bw then ret (True, HTTOP)
        else if py > hh - bw then ret (True, HTBOTTOM)
        else if px < bw then ret (True, HTLEFT)
        else if px > ww - bw then ret (True, HTRIGHT)
        else dispatch_titlebar pt py))))))))
       any_Exception
       (ret (False, 0))"

section \<open>The dispatcher (lines 138-214)\<close>

text \<open>
  The two blocks of \<open>nativeEvent\<close> that either return or fall through to the code after
  them answer \<open>Some\<close> of the returned pair, or \<open>None\<close> for falling through.
\<close>

definition nativeEvent_setcursor :: "msg \<Rightarrow> (bool \<times> int) option io" where
  "nativeEvent_setcursor m =
     (if message m = WM_SETCURSOR then
        (let ht = lParam m AND 0xFFFF in
         if ht = HTMAXBUTTON then
           bind (self_get original_cursor) (\<lambda>saved.
           bind (if \<not> truthy saved
                 then bind os_GetCursor (\<lambda>c. self_set (\<lambda>s. s\<lparr>original_cursor := Some c\<rparr>))
                 else ret ()) (\<lambda>_.
           bind (os_LoadCursorW 0 IDC_HAND) (\<lambda>hcur.
           if hcur \<noteq> 0 then bind (os_SetCursor hcur) (\<lambda>_. ret (Some (True, 1)))
           else ret None)))
         else
           bind (self_get original_cursor) (\<lambda>saved.
           if truthy saved
           then bind (os_SetCursor (as_handle saved)) (\<lambda>_.
                bind (self_set (\<lambda>s. s\<lparr>original_cursor := None\<rparr>)) (\<lambda>_.
                ret None))
           else ret None))
      else ret None)"

text \<open>
  \<open>int(msg.wParam)\<close> is applied to an integer field, so the handler around it for
  \<open>ValueError\<close> and \<open>OverflowError\<close> is never entered and \<open>ht\<close> is the parameter.
\<close>

definition nativeEvent_ncbutton :: "msg \<Rightarrow> (bool \<times> int) option io" where
  "nativeEvent_ncbutton m =
     (if message m = WM_NCLBUTTONDOWN \<or> message m = WM_NCLBUTTONUP
         \<or> message m = WM_NCLBUTTONDBLCLK then
        (let ht = wParam m in
         if ht = HTMAXBUTTON then
           (if message m = WM_NCLBUTTONDOWN then ret (Some (True, 0))
            else if message m = WM_NCLBUTTONUP \<or> message m = WM_NCLBUTTONDBLCLK then
              bind isMaximized (\<lambda>old_maximized.
              bind (self_get hwnd) (\<lambda>h.
              bind (if old_maximized then os_ShowWindow (as_handle h) SW_RESTORE
                    else os_ShowWindow (as_handle h) SW_MAXIMIZE) (\<lambda>_.
              bind (update_maximize_button_state (\<not> old_maximized)) (\<lambda>_.
              bind debounced_apply_corners (\<lambda>_.
              ret (Some (True, 0)))))))
            else ret None)
         else ret None)
      else ret None)"

definition nativeEvent :: "string \<Rightarrow> msg \<Rightarrow> (bool \<times> int) io" where
  "nativeEvent eventType m =
     (if eventType = ''windows_generic_MSG'' then
        (if message m = WM_NCPAINT \<or> message m = WM_NCACTIVATE then ret (True, 0)
         else
           bind (nativeEvent_setcursor m) (\<lambda>r1.
           case r1 of
             Some answer \<Rightarrow> ret answer
           | None \<Rightarrow>
               if message m = WM_NCCALCSIZE \<or> message m = WM_NCPAINT
                  \<or> message m = WM_NCACTIVATE then ret (True, 0)
               else
                 bind (nativeEvent_ncbutton m) (\<lambda>r2.
                 case r2 of
                   Some answer \<Rightarrow> ret answer
                 | None \<Rightarrow>
                     if message m = WM_GETMINMAXINFO then handle_getminmax m
                     else if message m = WM_NCHITTEST then handle_hittest
                     else
                       bind (if message m = WM_SIZE \<or> message m = WM_WINDOWPOSCHANGED
                                \<or> message m = WM_EXITSIZEMOVE \<or> message m = WM_DPICHANGED
                             then debounced_apply_corners else ret ()) (\<lambda>_.
                       bind (self_get orig_native) (\<lambda>orig.
                       call (orig eventType m))))))
      else
        bind (self_get orig_native) (\<lambda>orig.
        call (orig eventType m)))"

section \<open>The event loop's side of the one-shot callbacks\<close>

text \<open>
  A registered one-shot callback is due once its delay has passed since registration. The
  event loop runs every due callback, each a call of \<open>_apply_corners_now\<close>; an exception
  leaving a callback is reported by the toolkit and the loop goes on.
\<close>

definition is_due :: "rat \<Rightarrow> rat \<times> int \<Rightarrow> bool" where
  "is_due t p = (fst p + of_int (snd p) / 1000 \<le> t)"

fun run_callbacks :: "nat \<Rightarrow> unit io" where
  "run_callbacks 0 = ret ()"
| "run_callbacks (Suc n) =
     bind (try_except apply_corners_now any_Exception (ret ())) (\<lambda>_. run_callbacks n)"

definition process_timers :: "unit io" where
  "process_timers =
     (\<lambda>(s, w).
        run_callbacks (length (filter (is_due (clock w)) (pending w)))
          (s, w\<lparr>pending := filter (\<lambda>p. \<not> is_due (clock w) p) (pending w)\<rparr>))"

text \<open>Time passing between two events: the clock is set, nothing else changes.\<close>

definition at_time :: "rat \<Rightarrow> sys \<Rightarrow> sys" where
  "at_time t = (\<lambda>(s, w). (s, w\<lparr>clock := t\<rparr>))"

section \<open>Example objects\<close>

text \<open>
  The styler as \<open>__init__\<close> leaves it with its default arguments (border 8, fallback title
  bar of height 30, radius 15, no hook), given the previous handler and the system version.
\<close>

definition new_styler :: "(string \<Rightarrow> msg \<Rightarrow> exn + (bool \<times> int)) \<Rightarrow> bool \<Rightarrow> styler" where
  "new_styler orig win11 =
     \<lparr>orig_native = orig, titlebar_hook = None, hwnd = None,
      BORDER_WIDTH = 8, TITLE_BAR_FALLBACK_HEIGHT = 30, TITLE_BAR_FALLBACK = True,
      ROUND_CORNER_RADIUS = 15, titlebar_maximize_button = None, corner_timer = None,
      last_corner_apply = 0, is_windows_11 = win11, original_cursor = None\<rparr>"

text \<open>A previous handler that handles nothing.\<close>

definition unhandled :: "string \<Rightarrow> msg \<Rightarrow> exn + (bool \<times> int)" where
  "unhandled eventType m = Inr (False, 0)"

text \<open>The styler after \<open>_post_init\<close> obtained the handle 4242.\<close>

definition ready_styler :: styler where
  "ready_styler = (new_styler unhandled True)\<lparr>hwnd := Some 4242\<rparr>"

definition zero_point :: POINT where
  "zero_point = \<lparr>pt_x = 0, pt_y = 0\<rparr>"

text \<open>
  A 400 by 300 window at scale 1 on a 1920 by 1080 monitor whose work area is
  (10,10)-(1910,1070), restored, with the pointer at the window's origin; no call raises.
\<close>

definition desk :: world where
  "desk =
     \<lparr>faults = (\<lambda>c. None), clock = 1000, win_id = 4242, zoomed = False,
      cur_cursor = 65539, hand_cursor = 65567, nearest_monitor = 65537,
      monitor_info =
        Some (\<lparr>rc_left = 0, rc_top = 0, rc_right = 1920, rc_bottom = 1080\<rparr>,
              \<lparr>rc_left = 10, rc_top = 10, rc_right = 1910, rc_bottom = 1070\<rparr>),
      minmaxinfo =
        \<lparr>ptReserved = zero_point, ptMaxSize = zero_point, ptMaxPosition = zero_point,
         ptMinTrackSize = zero_point, ptMaxTrackSize = zero_point\<rparr>,
      global_cursor_pos = (0, 0), to_local = (\<lambda>p. p),
      win_width = 400, win_height = 300,
      win_minimum_width = 200, win_minimum_height = 100,
      win_dpr = 1,
      window_rect = Some \<lparr>rc_left = 0, rc_top = 0, rc_right = 400, rc_bottom = 300\<rparr>,
      dwm_hresult = 0, fresh_region = 77, tooltip = [], pending = [], os_log = []\<rparr>"

definition pointer_at :: "int \<times> int \<Rightarrow> world \<Rightarrow> world" where
  "pointer_at p w = w\<lparr>global_cursor_pos := p\<rparr>"

definition generic_MSG :: string where
  "generic_MSG = ''windows_generic_MSG''"

section \<open>Readings of a state used to state the properties\<close>

text \<open>What \<open>isMaximized()\<close> answers in a state.\<close>

definition maximized_now :: "sys \<Rightarrow> bool" where
  "maximized_now \<sigma> = (fst (isMaximized \<sigma>) = Inr True)"

text \<open>The pointer in window coordinates and the border in device pixels, as
  \<open>_handle_hittest\<close> computes them (lines 290-300).\<close>

definition local_pos :: "world \<Rightarrow> int \<times> int" where
  "local_pos w = to_local w (global_cursor_pos w)"

definition scaled_border :: "sys \<Rightarrow> int" where
  "scaled_border = (\<lambda>(s, w). py_int (of_int (BORDER_WIDTH s) * win_dpr w))"

text \<open>The delay \<open>_debounced_apply_corners\<close> computes (lines 380-381).\<close>

definition debounce_delay :: "sys \<Rightarrow> int" where
  "debounce_delay = (\<lambda>(s, w). max 0 (50 - py_int ((clock w - last_corner_apply s) * 1000)))"

text \<open>The environment in which one outgoing call raises and no other does.\<close>

definition failing :: "site \<Rightarrow> exn \<Rightarrow> world \<Rightarrow> world" where
  "failing c e w = w\<lparr>faults := (\<lambda>c'. if c' = c then Some e else None)\<rparr>"

text \<open>The environment after the registered button, if any, was told the state
  (\<open>_update_maximize_button_state\<close> with no call raising).\<close>

definition button_told :: "bool \<Rightarrow> sys \<Rightarrow> world" where
  "button_told b =
     (\<lambda>(s, w). case titlebar_maximize_button s of
                  None \<Rightarrow> w
                | Some btn \<Rightarrow>
                    if has_setToolTip btn
                    then w\<lparr>tooltip := (if b then ''Restore'' else ''Maximize'')\<rparr>
                    else w)"


text \<open>Messages used as examples: the left button released over the maximize button, the
  window resized, the pointer over the maximize button.\<close>

definition button_up :: msg where
  "button_up = \<lparr>message = WM_NCLBUTTONUP, wParam = HTMAXBUTTON, lParam = 0\<rparr>"

definition resized :: msg where
  "resized = \<lparr>message = WM_SIZE, wParam = 0, lParam = 0\<rparr>"


text \<open>A previous handler that claims every message.\<close>

definition claims_all :: "string \<Rightarrow> msg \<Rightarrow> exn + (bool \<times> int)" where
  "claims_all eventType m = Inr (True, 1)"



text \<open>Title-bar hooks used as examples: one that reports the maximize button, one that
  reports the left border, one that raises \<open>RuntimeError\<close>.\<close>

definition button_hook :: "int \<times> int \<Rightarrow> exn + (bool \<times> int) option" where
  "button_hook p = Inr (Some (True, HTMAXBUTTON))"

definition edge_hook :: "int \<times> int \<Rightarrow> exn + (bool \<times> int) option" where
  "edge_hook p = Inr (Some (True, HTLEFT))"

definition raising_hook :: "int \<times> int \<Rightarrow> exn + (bool \<times> int) option" where
  "raising_hook p = Inl RuntimeError"

text \<open>The example window, maximized.\<close>

definition maximized_desk :: world where
  "maximized_desk = desk\<lparr>zoomed := True\<rparr>"

text \<open>The fallback of the title-bar decision (lines 346-350) for a vertical offset.\<close>

definition fallback_answer :: "styler \<Rightarrow> int \<Rightarrow> bool \<times> int" where
  "fallback_answer s py =
     (if TITLE_BAR_FALLBACK s \<and> py < TITLE_BAR_FALLBACK_HEIGHT s then (True, HTCAPTION)
      else (False, 0))"


text \<open>
  A burst: the styler applied the corners at time 1000; two triggers arrive 10 and 20
  milliseconds later, both inside the 50 millisecond interval; the event loop then runs the
  callbacks that are due at 60 milliseconds.
\<close>

definition burst_of_two :: sys where
  "burst_of_two =
     snd (debounced_apply_corners (at_time (1000 + 2 / 100)
       (snd (debounced_apply_corners (at_time (1000 + 1 / 100)
          (ready_styler\<lparr>last_corner_apply := 1000\<rparr>, desk))))))"

definition after_burst :: sys where
  "after_burst = snd (process_timers (at_time (1000 + 6 / 100) burst_of_two))"

text \<open>\<open>n\<close> triggers in a row, at the times given.\<close>

fun triggers :: "rat list \<Rightarrow> sys \<Rightarrow> sys" where
  "triggers [] \<sigma> = \<sigma>"
| "triggers (t # ts) \<sigma> = triggers ts (snd (debounced_apply_corners (at_time t \<sigma>)))"

section \<open>How the primitives run\<close>

lemmas io_defs = ret_def raise_def bind_def try_except_def any_Exception_def self_get_def self_set_def poke_def extern_def call_def
lemmas os_defs = os_IsZoomed_def os_ShowWindow_def os_GetCursor_def os_LoadCursorW_def os_SetCursor_def os_SetWindowRgn_def

lemmas wm_defs =
  WM_NCHITTEST_def WM_NCCALCSIZE_def WM_NCPAINT_def WM_NCACTIVATE_def WM_GETMINMAXINFO_def
  WM_SIZE_def WM_WINDOWPOSCHANGED_def WM_EXITSIZEMOVE_def WM_DPICHANGED_def
  WM_NCLBUTTONDOWN_def WM_NCLBUTTONUP_def WM_NCLBUTTONDBLCLK_def WM_SETCURSOR_def

lemmas ht_defs =
  HTCLIENT_def HTCAPTION_def HTMAXBUTTON_def HTLEFT_def HTRIGHT_def HTTOP_def HTTOPLEFT_def
  HTTOPRIGHT_def HTBOTTOM_def HTBOTTOMLEFT_def HTBOTTOMRIGHT_def

lemmas example_defs = ready_styler_def new_styler_def unhandled_def desk_def pointer_at_def
  zero_point_def failing_def at_time_def

lemma debounced_ok:
  "no_faults w \<Longrightarrow>
   debounced_apply_corners (s, w) =
     (Inr (), (s\<lparr>corner_timer := Some \<lparr>active = False\<rparr>\<rparr>,
               w\<lparr>pending := pending w @ [(clock w, debounce_delay (s, w))]\<rparr>))"
  by (cases "corner_timer s")
     (simp_all add: debounced_apply_corners_def QTimer_static_singleShot_def io_defs no_faults_def Let_def debounce_delay_def)

lemma isMaximized_ok:
  "no_faults w \<Longrightarrow>
   isMaximized (s, w) = (Inr (truthy (hwnd s) \<and> as_handle (hwnd s) = win_id w \<and> zoomed w), (s, w))"
  by (auto simp add: isMaximized_def os_defs io_defs no_faults_def truthy_def as_handle_def split: option.splits)

lemma maximized_now_ok:
  "no_faults w \<Longrightarrow> maximized_now (s, w) = (truthy (hwnd s) \<and> as_handle (hwnd s) = win_id w \<and> zoomed w)"
  by (simp add: maximized_now_def isMaximized_ok)

lemma isMaximized_now:
  "no_faults w \<Longrightarrow> isMaximized (s, w) = (Inr (maximized_now (s, w)), (s, w))"
  by (simp add: maximized_now_ok isMaximized_ok)

lemma ShowWindow_ok:
  "no_faults w \<Longrightarrow> os_ShowWindow h cmd (s, w) =
     (Inr (), (s, w\<lparr>os_log := os_log w @ [Call_ShowWindow h cmd],
              zoomed := (if h \<noteq> 0 \<and> h = win_id w
                         then (if cmd = SW_MAXIMIZE then True
                               else if cmd = SW_RESTORE then False else zoomed w)
                         else zoomed w)\<rparr>))"
  by (simp add: os_defs io_defs no_faults_def)

lemma setcursor_skip: "message m \<noteq> WM_SETCURSOR \<Longrightarrow> nativeEvent_setcursor m \<sigma> = (Inr None, \<sigma>)"
  by (simp add: nativeEvent_setcursor_def io_defs)

lemma ncbutton_skip:
  "message m \<noteq> WM_NCLBUTTONDOWN \<Longrightarrow> message m \<noteq> WM_NCLBUTTONUP \<Longrightarrow> message m \<noteq> WM_NCLBUTTONDBLCLK
   \<Longrightarrow> nativeEvent_ncbutton m \<sigma> = (Inr None, \<sigma>)"
  by (simp add: nativeEvent_ncbutton_def io_defs)

lemma dispatch_titlebar_cases:
  "dispatch_titlebar gp py (s, w) =
     (case titlebar_hook s of
        None \<Rightarrow> (Inr (if TITLE_BAR_FALLBACK s \<and> py < TITLE_BAR_FALLBACK_HEIGHT s then (True, HTCAPTION) else (False, 0)), (s, w))
      | Some f \<Rightarrow>
         (case f gp of
            Inr (Some a) \<Rightarrow> (Inr a, (s, w))
          | Inr None \<Rightarrow> (Inr (if TITLE_BAR_FALLBACK s \<and> py < TITLE_BAR_FALLBACK_HEIGHT s then (True, HTCAPTION) else (False, 0)), (s, w))
          | Inl e \<Rightarrow> if e = AttributeError \<or> e = TypeError \<or> e = ValueError
                     then (Inr (if TITLE_BAR_FALLBACK s \<and> py < TITLE_BAR_FALLBACK_HEIGHT s then (True, HTCAPTION) else (False, 0)), (s, w))
                     else (Inl e, (s, w))))"
  by (simp add: dispatch_titlebar_def io_defs split: option.splits sum.splits)

lemma hittest_ok:
  assumes "no_faults w"
  shows "handle_hittest (s, w) =
    (let px = fst (local_pos w); py = snd (local_pos w); bw = scaled_border (s, w);
         ww = win_width w; hh = win_height w;
         decision = try_except (dispatch_titlebar (global_cursor_pos w) py) any_Exception (ret (False, 0)) (s, w)
     in if maximized_now (s, w) then decision
        else if px < bw \<and> py < bw then (Inr (True, HTTOPLEFT), (s, w))
        else if px > ww - bw \<and> py < bw then (Inr (True, HTTOPRIGHT), (s, w))
        else if px < bw \<and> py > hh - bw then (Inr (True, HTBOTTOMLEFT), (s, w))
        else if px > ww - bw \<and> py > hh - bw then (Inr (True, HTBOTTOMRIGHT), (s, w))
        else if py < bw then (Inr (True, HTTOP), (s, w))
        else if py > hh - bw then (Inr (True, HTBOTTOM), (s, w))
        else if px < bw then (Inr (True, HTLEFT), (s, w))
        else if px > ww - bw then (Inr (True, HTRIGHT), (s, w))
        else decision)"
proof -
  have f: "\<And>c. faults w c = None" using assms by (simp add: no_faults_def)
  show ?thesis
    unfolding handle_hittest_def
    by (simp add: bind_def extern_def self_get_def f Let_def isMaximized_now[OF assms]
          local_pos_def scaled_border_def try_except_def ret_def any_Exception_def)
qed



lemma getminmax_msg:
  "message m = WM_GETMINMAXINFO \<Longrightarrow> nativeEvent generic_MSG m \<sigma> = handle_getminmax m \<sigma>"
  by (simp add: nativeEvent_def generic_MSG_def setcursor_skip ncbutton_skip wm_defs bind_def ret_def)


lemma word_store_diff: "store_LONG (sint a - sint b) = a - b"
  by (simp add: store_LONG_def)

lemma getminmax_ok:
  assumes "lParam m \<noteq> 0" "truthy (hwnd s)" "no_faults w" "nearest_monitor w \<noteq> 0"
      "monitor_info w = Some (full, work)"
  shows "handle_getminmax m (s, w) =
     (Inr (True, 0),
      (s, w\<lparr>minmaxinfo := (minmaxinfo w)
            \<lparr>ptMaxPosition := \<lparr>pt_x = rc_left work - rc_left full, pt_y = rc_top work - rc_top full\<rparr>,
             ptMaxSize := \<lparr>pt_x = rc_right work - rc_left work, pt_y = rc_bottom work - rc_top work\<rparr>,
             ptMinTrackSize := \<lparr>pt_x = store_LONG (max (win_minimum_width w) 200),
                                 pt_y = store_LONG (max (win_minimum_height w) 100)\<rparr>\<rparr>\<rparr>))"
  using assms
  by (simp add: handle_getminmax_def io_defs no_faults_def word_store_diff Let_def)

lemma desk_no_faults: "no_faults (pointer_at p desk)" "no_faults desk"
  by (simp_all add: no_faults_def pointer_at_def desk_def)



lemma desk_geometry:
  "win_width (pointer_at p desk) = 400" "win_height (pointer_at p desk) = 300"
  "local_pos (pointer_at p desk) = p" "global_cursor_pos (pointer_at p desk) = p"
  by (simp_all add: local_pos_def pointer_at_def desk_def)

section \<open>Hit-test regions of a restored window\<close>



section \<open>Min/max constraints\<close>

text \<open>
  C6. For the get-min-max-info message with a record to fill in, a handle, a monitor found and
  its information retrieved (and no call raising), the message is answered \<open>(True, 0)\<close>; the
  maximized position written is the work area's origin minus the monitor's origin and the
  maximized size is the work area's width and height, in the 32-bit arithmetic of the LONG
  fields; the minimum track size is the window's minimum size, not below 200 by 100. For the
  work area (10,10)-(1910,1070) on the monitor (0,0)-(1920,1080) and the minimum size (200,100)
  this gives the position (10,10), the size (1900,1060) and the minimum track size (200,100).
\<close>

theorem C6_minmax_from_work_area:
  assumes "message m = WM_GETMINMAXINFO" and "lParam m \<noteq> 0" and "truthy (hwnd s)"
      and "no_faults w" and "nearest_monitor w \<noteq> 0" and "monitor_info w = Some (full, work)"
  shows "(\<exists>w'. nativeEvent generic_MSG m (s, w) = (Inr (True, 0), (s, w'))
      \<and> ptMaxPosition (minmaxinfo w') =
           \<lparr>pt_x = rc_left work - rc_left full, pt_y = rc_top work - rc_top full\<rparr>
      \<and> ptMaxSize (minmaxinfo w') =
           \<lparr>pt_x = rc_right work - rc_left work, pt_y = rc_bottom work - rc_top work\<rparr>
      \<and> ptMinTrackSize (minmaxinfo w') =
           \<lparr>pt_x = store_LONG (max (win_minimum_width w) 200),
            pt_y = store_LONG (max (win_minimum_height w) 100)\<rparr>)
   \<and> (let info = minmaxinfo (snd (snd (nativeEvent generic_MSG
                      \<lparr>message = WM_GETMINMAXINFO, wParam = 0, lParam = 4096\<rparr>
                      (ready_styler, desk))))
       in (sint (pt_x (ptMaxPosition info)), sint (pt_y (ptMaxPosition info))) = (10, 10)
        \<and> (sint (pt_x (ptMaxSize info)), sint (pt_y (ptMaxSize info))) = (1900, 1060)
        \<and> (sint (pt_x (ptMinTrackSize info)), sint (pt_y (ptMinTrackSize info))) = (200, 100))"
proof -
  have general: "\<exists>w'. nativeEvent generic_MSG m (s, w) = (Inr (True, 0), (s, w'))
      \<and> ptMaxPosition (minmaxinfo w') =
           \<lparr>pt_x = rc_left work - rc_left full, pt_y = rc_top work - rc_top full\<rparr>
      \<and> ptMaxSize (minmaxinfo w') =
           \<lparr>pt_x = rc_right work - rc_left work, pt_y = rc_bottom work - rc_top work\<rparr>
      \<and> ptMinTrackSize (minmaxinfo w') =
           \<lparr>pt_x = store_LONG (max (win_minimum_width w) 200),
            pt_y = store_LONG (max (win_minimum_height w) 100)\<rparr>"
    using assms by (simp add: getminmax_msg getminmax_ok)
  have example: "let info = minmaxinfo (snd (snd (nativeEvent generic_MSG
                      \<lparr>message = WM_GETMINMAXINFO, wParam = 0, lParam = 4096\<rparr>
                      (ready_styler, desk))))
       in (sint (pt_x (ptMaxPosition info)), sint (pt_y (ptMaxPosition info))) = (10, 10)
        \<and> (sint (pt_x (ptMaxSize info)), sint (pt_y (ptMaxSize info))) = (1900, 1060)
        \<and> (sint (pt_x (ptMinTrackSize info)), sint (pt_y (ptMinTrackSize info))) = (200, 100)"
    by (simp add: getminmax_msg)
       (simp add: handle_getminmax_def io_defs example_defs truthy_def store_LONG_def Let_def)
  from general example show ?thesis by blast
qed

theorem C6_minmax_from_work_area_witness:
  "\<exists>w'. nativeEvent generic_MSG \<lparr>message = WM_GETMINMAXINFO, wParam = 0, lParam = 4096\<rparr>
          (ready_styler, desk) = (Inr (True, 0), (ready_styler, w'))
      \<and> ptMaxPosition (minmaxinfo w') = \<lparr>pt_x = 10, pt_y = 10\<rparr>
      \<and> ptMaxSize (minmaxinfo w') = \<lparr>pt_x = 1900, pt_y = 1060\<rparr>
      \<and> ptMinTrackSize (minmaxinfo w') = \<lparr>pt_x = 200, pt_y = 100\<rparr>"
  using C6_minmax_from_work_area
          [of "\<lparr>message = WM_GETMINMAXINFO, wParam = 0, lParam = 4096\<rparr>" ready_styler desk
              "\<lparr>rc_left = 0, rc_top = 0, rc_right = 1920, rc_bottom = 1080\<rparr>"
              "\<lparr>rc_left = 10, rc_top = 10, rc_right = 1910, rc_bottom = 1070\<rparr>"]
  by (simp add: desk_no_faults)
     (simp add: desk_def ready_styler_def new_styler_def truthy_def store_LONG_def)

section \<open>Before the handle exists\<close>

text \<open>
  C10. While the handle field is unset (\<open>None\<close>, or null), \<open>isMaximized\<close> answers false and
  \<open>showMaximized\<close> and \<open>showNormal\<close> return at once: no call is made, whatever the
  environment would answer or raise, and neither the styler nor the environment changes.
\<close>

theorem C10_no_handle_no_effect:
  assumes "\<not> truthy (hwnd s)"
  shows "isMaximized (s, w) = (Inr False, (s, w))
       \<and> showMaximized (s, w) = (Inr (), (s, w))
       \<and> showNormal (s, w) = (Inr (), (s, w))"
  using assms by (simp add: isMaximized_def showMaximized_def showNormal_def io_defs)

theorem C10_no_handle_no_effect_witness:
  "hwnd (new_styler unhandled True) = None
   \<and> isMaximized (new_styler unhandled True, desk) = (Inr False, (new_styler unhandled True, desk))
   \<and> showMaximized (new_styler unhandled True, desk) = (Inr (), (new_styler unhandled True, desk))
   \<and> showNormal (new_styler unhandled True, desk) = (Inr (), (new_styler unhandled True, desk))"
  using C10_no_handle_no_effect [of "new_styler unhandled True" desk]
  by (simp add: new_styler_def truthy_def)

section \<open>The maximize toggle and the resize messages\<close>

lemma update_button_ok:
  "no_faults w \<Longrightarrow> update_maximize_button_state b (s, w) = (Inr (), (s, button_told b (s, w)))"
  by (auto simp add: update_maximize_button_state_def io_defs no_faults_def button_told_def
      split: option.splits)

lemma button_told_simps:
  "faults (button_told b (s, w)) = faults w"
  "pending (button_told b (s, w)) = pending w"
  "os_log (button_told b (s, w)) = os_log w"
  "zoomed (button_told b (s, w)) = zoomed w"
  "clock (button_told b (s, w)) = clock w"
  "win_id (button_told b (s, w)) = win_id w"
  "cur_cursor (button_told b (s, w)) = cur_cursor w"
  by (auto simp: button_told_def split: option.splits)

lemma toggle_step:
  assumes m: "message m = WM_NCLBUTTONUP \<or> message m = WM_NCLBUTTONDBLCLK"
      and ht: "wParam m = HTMAXBUTTON" and nf: "no_faults w"
  shows "\<exists>s' w'. nativeEvent generic_MSG m (s, w) = (Inr (True, 0), (s', w'))
      \<and> hwnd s' = hwnd s \<and> no_faults w' \<and> win_id w' = win_id w
      \<and> os_log w' = os_log w @ [Call_ShowWindow (as_handle (hwnd s))
                          (if maximized_now (s, w) then SW_RESTORE else SW_MAXIMIZE)]
      \<and> zoomed w' = (if truthy (hwnd s) \<and> as_handle (hwnd s) = win_id w
                     then \<not> zoomed w else zoomed w)
      \<and> pending w' = pending w @ [(clock w, debounce_delay (s, w))]"
proof -
  have a: "message m \<noteq> WM_NCPAINT" "message m \<noteq> WM_NCACTIVATE" "message m \<noteq> WM_SETCURSOR"
    "message m \<noteq> WM_NCCALCSIZE" "message m \<noteq> WM_NCLBUTTONDOWN"
    using m by (auto simp: wm_defs)
  show ?thesis
    using m ht nf a
    apply (simp add: nativeEvent_def generic_MSG_def setcursor_skip nativeEvent_ncbutton_def
        bind_def ret_def self_get_def isMaximized_ok maximized_now_ok ShowWindow_ok update_button_ok
        debounced_ok no_faults_def button_told_simps)
    apply (auto simp: truthy_def as_handle_def SW_MAXIMIZE_def SW_RESTORE_def debounce_delay_def
        button_told_simps split: option.splits)
    done
qed

text \<open>
  C5. A non-client button-up or double-click message whose hit-test code is the maximize button
  (no call raising) is answered \<open>(True, 0)\<close>; it issues one show-window directive on the
  styler's handle, restore if \<open>isMaximized()\<close> was true and maximize otherwise, and registers
  one delayed corner application. When the handle is the window's own, the maximized state is
  thereby inverted. A second such message, at any later time \<open>t\<close>, is answered the same; after
  it the window is maximized exactly if it was at the start, and two delayed corner
  applications have been registered.
\<close>

theorem C5_maximize_button_toggles:
  assumes "message m = WM_NCLBUTTONUP \<or> message m = WM_NCLBUTTONDBLCLK"
      and "wParam m = HTMAXBUTTON"
      and "message m' = WM_NCLBUTTONUP \<or> message m' = WM_NCLBUTTONDBLCLK"
      and "wParam m' = HTMAXBUTTON"
      and "no_faults w"
  shows "\<exists>s1 w1 s2 w2.
        nativeEvent generic_MSG m (s, w) = (Inr (True, 0), (s1, w1))
      \<and> os_log w1 = os_log w @ [Call_ShowWindow (as_handle (hwnd s))
                          (if maximized_now (s, w) then SW_RESTORE else SW_MAXIMIZE)]
      \<and> pending w1 = pending w @ [(clock w, debounce_delay (s, w))]
      \<and> (hwnd s = Some (win_id w) \<and> win_id w \<noteq> 0 \<longrightarrow>
            maximized_now (s1, w1) = (\<not> maximized_now (s, w)))
      \<and> nativeEvent generic_MSG m' (at_time t (s1, w1)) = (Inr (True, 0), (s2, w2))
      \<and> maximized_now (s2, w2) = maximized_now (s, w)
      \<and> zoomed w2 = zoomed w
      \<and> length (pending w2) = length (pending w) + 2"
proof -
  from toggle_step [OF assms(1,2,5), of s] obtain s1 w1 where
    1: "nativeEvent generic_MSG m (s, w) = (Inr (True, 0), (s1, w1))"
       "hwnd s1 = hwnd s" "no_faults w1" "win_id w1 = win_id w"
       "os_log w1 = os_log w @ [Call_ShowWindow (as_handle (hwnd s))
                          (if maximized_now (s, w) then SW_RESTORE else SW_MAXIMIZE)]"
       "zoomed w1 = (if truthy (hwnd s) \<and> as_handle (hwnd s) = win_id w
                     then \<not> zoomed w else zoomed w)"
       "pending w1 = pending w @ [(clock w, debounce_delay (s, w))]"
    by blast
  have nf1: "no_faults (w1\<lparr>clock := t\<rparr>)" using 1(3) by (simp add: no_faults_def)
  from toggle_step [OF assms(3,4) nf1, of s1] obtain s2 w2 where
    2: "nativeEvent generic_MSG m' (s1, w1\<lparr>clock := t\<rparr>) = (Inr (True, 0), (s2, w2))"
       "hwnd s2 = hwnd s1" "no_faults w2" "win_id w2 = win_id (w1\<lparr>clock := t\<rparr>)"
       "zoomed w2 = (if truthy (hwnd s1) \<and> as_handle (hwnd s1) = win_id (w1\<lparr>clock := t\<rparr>)
                     then \<not> zoomed (w1\<lparr>clock := t\<rparr>) else zoomed (w1\<lparr>clock := t\<rparr>))"
       "pending w2 = pending (w1\<lparr>clock := t\<rparr>) @
          [(clock (w1\<lparr>clock := t\<rparr>), debounce_delay (s1, w1\<lparr>clock := t\<rparr>))]"
    by blast
  have z: "zoomed w2 = zoomed w" using 1 2 by simp
  have mx: "maximized_now (s2, w2) = maximized_now (s, w)"
    using 1 2 z assms(5) by (simp add: maximized_now_ok)
  have mid: "hwnd s = Some (win_id w) \<and> win_id w \<noteq> 0 \<longrightarrow>
            maximized_now (s1, w1) = (\<not> maximized_now (s, w))"
    using 1 assms(5) by (auto simp add: maximized_now_ok truthy_def as_handle_def)
  have len: "length (pending w2) = length (pending w) + 2" using 1 2 by simp
  show ?thesis
    using 1(1,5,7) 2(1) z mx mid len by (auto simp add: at_time_def)
qed

lemma desk_ready_now: "maximized_now (ready_styler, desk) = False"
  by (simp add: maximized_now_ok desk_no_faults) (simp add: desk_def)

theorem C5_maximize_button_toggles_witness:
  "\<exists>s1 w1 s2 w2.
        nativeEvent generic_MSG button_up (ready_styler, desk) = (Inr (True, 0), (s1, w1))
      \<and> os_log w1 = [Call_ShowWindow 4242 SW_MAXIMIZE]
      \<and> maximized_now (s1, w1)
      \<and> nativeEvent generic_MSG button_up (at_time 1001 (s1, w1)) = (Inr (True, 0), (s2, w2))
      \<and> \<not> maximized_now (s2, w2)
      \<and> length (pending w2) = 2"
proof -
  have h: "hwnd ready_styler = Some (win_id desk)" "win_id desk \<noteq> 0" "os_log desk = []"
    "pending desk = []" "as_handle (hwnd ready_styler) = 4242"
    by (simp_all add: ready_styler_def new_styler_def desk_def as_handle_def)
  from C5_maximize_button_toggles [of button_up button_up desk ready_styler 1001]
  obtain s1 w1 s2 w2 where
    "nativeEvent generic_MSG button_up (ready_styler, desk) = (Inr (True, 0), (s1, w1))"
    "os_log w1 = os_log desk @ [Call_ShowWindow (as_handle (hwnd ready_styler))
                          (if maximized_now (ready_styler, desk) then SW_RESTORE else SW_MAXIMIZE)]"
    "hwnd ready_styler = Some (win_id desk) \<and> win_id desk \<noteq> 0 \<longrightarrow>
            maximized_now (s1, w1) = (\<not> maximized_now (ready_styler, desk))"
    "nativeEvent generic_MSG button_up (at_time 1001 (s1, w1)) = (Inr (True, 0), (s2, w2))"
    "maximized_now (s2, w2) = maximized_now (ready_styler, desk)"
    "length (pending w2) = length (pending desk) + 2"
    by (auto simp add: button_up_def desk_no_faults)
  then show ?thesis
    using h by (auto simp add: desk_ready_now)
qed

lemma resize_falls_back:
  assumes "message m = WM_SIZE \<or> message m = WM_WINDOWPOSCHANGED
           \<or> message m = WM_EXITSIZEMOVE \<or> message m = WM_DPICHANGED"
      and "no_faults w"
  shows "nativeEvent generic_MSG m (s, w) =
           (orig_native s generic_MSG m,
            (s\<lparr>corner_timer := Some \<lparr>active = False\<rparr>\<rparr>,
             w\<lparr>pending := pending w @ [(clock w, debounce_delay (s, w))]\<rparr>))"
proof -
  have a: "message m \<noteq> WM_NCPAINT" "message m \<noteq> WM_NCACTIVATE" "message m \<noteq> WM_SETCURSOR"
    "message m \<noteq> WM_NCCALCSIZE" "message m \<noteq> WM_NCLBUTTONDOWN" "message m \<noteq> WM_NCLBUTTONUP"
    "message m \<noteq> WM_NCLBUTTONDBLCLK" "message m \<noteq> WM_GETMINMAXINFO" "message m \<noteq> WM_NCHITTEST"
    using assms(1) by (auto simp: wm_defs)
  show ?thesis
    using assms a
    by (simp add: nativeEvent_def setcursor_skip ncbutton_skip bind_def ret_def debounced_ok
          self_get_def call_def generic_MSG_def)
qed

text \<open>
  C8, as the code has it. For a size, window-pos-changed, exit-size-move or DPI-changed message
  (no call raising) the dispatcher registers one delayed corner application and then answers
  what the previously installed handler answers for the message: \<open>(False, 0)\<close> when that
  handler leaves the message unhandled, and not otherwise.
\<close>

theorem C8_resize_reschedules_then_previous_handler:
  assumes "message m = WM_SIZE \<or> message m = WM_WINDOWPOSCHANGED
           \<or> message m = WM_EXITSIZEMOVE \<or> message m = WM_DPICHANGED"
      and "no_faults w"
  shows "nativeEvent generic_MSG m (s, w) =
           (orig_native s generic_MSG m,
            (s\<lparr>corner_timer := Some \<lparr>active = False\<rparr>\<rparr>,
             w\<lparr>pending := pending w @ [(clock w, debounce_delay (s, w))]\<rparr>))"
  using assms by (rule resize_falls_back)

theorem C8_resize_reschedules_then_previous_handler_witness:
  "fst (nativeEvent generic_MSG resized (ready_styler, desk)) = Inr (False, 0)
   \<and> pending (snd (snd (nativeEvent generic_MSG resized (ready_styler, desk)))) = [(1000, 0)]"
  using C8_resize_reschedules_then_previous_handler [of resized desk ready_styler]
  by (simp add: resized_def desk_no_faults)
     (simp add: ready_styler_def new_styler_def unhandled_def desk_def debounce_delay_def py_int_def)

text \<open>The claim as stated fails: with a previous handler that claims the message, a size
  message is answered \<open>(True, 1)\<close>.\<close>

theorem C8_counterexample:
  "fst (nativeEvent generic_MSG resized (ready_styler\<lparr>orig_native := claims_all\<rparr>, desk))
     = Inr (True, 1)
   \<and> fst (nativeEvent generic_MSG resized (ready_styler\<lparr>orig_native := claims_all\<rparr>, desk))
     \<noteq> Inr (False, 0)"
  by (simp add: resize_falls_back resized_def desk_no_faults claims_all_def)

section \<open>The saved cursor\<close>





























section \<open>The title-bar decision\<close>

lemma dispatch_titlebar_fallback:
  "dispatch_titlebar gp py (s, w) =
     (case titlebar_hook s of
        None \<Rightarrow> (Inr (fallback_answer s py), (s, w))
      | Some f \<Rightarrow>
         (case f gp of
            Inr (Some a) \<Rightarrow> (Inr a, (s, w))
          | Inr None \<Rightarrow> (Inr (fallback_answer s py), (s, w))
          | Inl e \<Rightarrow> if e = AttributeError \<or> e = TypeError \<or> e = ValueError
                     then (Inr (fallback_answer s py), (s, w))
                     else (Inl e, (s, w))))"
  unfolding fallback_answer_def by (rule dispatch_titlebar_cases)

lemma titlebar_decision:
  "try_except (dispatch_titlebar gp py) any_Exception (ret (False, 0)) (s, w) =
     (case titlebar_hook s of
        None \<Rightarrow> (Inr (fallback_answer s py), (s, w))
      | Some f \<Rightarrow>
         (case f gp of
            Inr (Some a) \<Rightarrow> (Inr a, (s, w))
          | Inr None \<Rightarrow> (Inr (fallback_answer s py), (s, w))
          | Inl e \<Rightarrow> if e = AttributeError \<or> e = TypeError \<or> e = ValueError
                     then (Inr (fallback_answer s py), (s, w))
                     else (Inr (False, 0), (s, w))))"
  by (simp add: try_except_def dispatch_titlebar_fallback any_Exception_def ret_def
      split: option.splits sum.splits)

lemma maximized_hittest:
  assumes "no_faults w" and "maximized_now (s, w)"
  shows "handle_hittest (s, w) =
     try_except (dispatch_titlebar (global_cursor_pos w) (snd (local_pos w)))
       any_Exception (ret (False, 0)) (s, w)"
  using assms(2) by (simp add: hittest_ok [OF assms(1)] Let_def)

lemma interior_hittest:
  assumes "no_faults w" and "\<not> maximized_now (s, w)"
    and "scaled_border (s, w) \<le> fst (local_pos w)"
    and "fst (local_pos w) \<le> win_width w - scaled_border (s, w)"
    and "scaled_border (s, w) \<le> snd (local_pos w)"
    and "snd (local_pos w) \<le> win_height w - scaled_border (s, w)"
  shows "handle_hittest (s, w) =
     try_except (dispatch_titlebar (global_cursor_pos w) (snd (local_pos w)))
       any_Exception (ret (False, 0)) (s, w)"
  using assms(2-6) by (simp add: hittest_ok [OF assms(1)] Let_def)

lemma maximized_desk_facts:
  "no_faults (pointer_at p maximized_desk)"
  "maximized_now (ready_styler\<lparr>titlebar_hook := h\<rparr>, pointer_at p maximized_desk)"
  "global_cursor_pos (pointer_at p maximized_desk) = p"
  "local_pos (pointer_at p maximized_desk) = p"
proof -
  show nf: "no_faults (pointer_at p maximized_desk)"
    by (simp add: no_faults_def pointer_at_def maximized_desk_def desk_def)
  show "maximized_now (ready_styler\<lparr>titlebar_hook := h\<rparr>, pointer_at p maximized_desk)"
    by (simp add: maximized_now_ok nf)
       (simp add: pointer_at_def maximized_desk_def desk_def ready_styler_def new_styler_def
          truthy_def as_handle_def)
  show "global_cursor_pos (pointer_at p maximized_desk) = p"
    "local_pos (pointer_at p maximized_desk) = p"
    by (simp_all add: local_pos_def pointer_at_def maximized_desk_def desk_def)
qed

text \<open>
  C4, as the code has it. Hit-testing a maximized window (no call raising) skips the border and
  corner tests and gives the title-bar decision: when a title-bar hook is registered and
  answers, its answer is returned as it is; when no hook is registered, or the hook gives no
  answer or raises, the result is the caption code or the client answer \<open>(False, 0)\<close>, and with
  no hook it is the caption code exactly when the fallback is enabled and the vertical offset is
  below the fallback height.
\<close>

theorem C4_maximized_gives_titlebar_decision:
  assumes "no_faults w" and "maximized_now (s, w)"
  shows "(\<forall>f a. titlebar_hook s = Some f \<and> f (global_cursor_pos w) = Inr (Some a) \<longrightarrow>
            fst (handle_hittest (s, w)) = Inr a)
       \<and> (titlebar_hook s = None
             \<or> (\<exists>f. titlebar_hook s = Some f \<and> (\<forall>a. f (global_cursor_pos w) \<noteq> Inr (Some a))) \<longrightarrow>
            fst (handle_hittest (s, w)) = Inr (True, HTCAPTION)
          \<or> fst (handle_hittest (s, w)) = Inr (False, 0))
       \<and> (titlebar_hook s = None \<longrightarrow>
            fst (handle_hittest (s, w)) = Inr (fallback_answer s (snd (local_pos w))))"
  unfolding maximized_hittest [OF assms] titlebar_decision
  by (auto simp add: fallback_answer_def split: option.splits sum.splits)

theorem C4_maximized_gives_titlebar_decision_witness:
  "fst (handle_hittest (ready_styler, pointer_at (200, 15) maximized_desk)) = Inr (True, HTCAPTION)
   \<and> fst (handle_hittest (ready_styler, pointer_at (2, 200) maximized_desk)) = Inr (False, 0)
   \<and> fst (handle_hittest (ready_styler\<lparr>titlebar_hook := Some button_hook\<rparr>,
                            pointer_at (2, 2) maximized_desk)) = Inr (True, HTMAXBUTTON)"
proof -
  have r: "ready_styler\<lparr>titlebar_hook := None\<rparr> = ready_styler"
    by (simp add: ready_styler_def new_styler_def)
  have m: "maximized_now (ready_styler, pointer_at p maximized_desk)" for p
    using maximized_desk_facts(2) [where h = None and p = p] by (simp add: r)
  have h: "titlebar_hook ready_styler = None" "TITLE_BAR_FALLBACK ready_styler"
    "TITLE_BAR_FALLBACK_HEIGHT ready_styler = 30"
    by (simp_all add: ready_styler_def new_styler_def)
  show ?thesis
    using C4_maximized_gives_titlebar_decision
            [OF maximized_desk_facts(1) [where p = "(200, 15)"] m [where p = "(200, 15)"]]
          C4_maximized_gives_titlebar_decision
            [OF maximized_desk_facts(1) [where p = "(2, 200)"] m [where p = "(2, 200)"]]
          C4_maximized_gives_titlebar_decision
            [OF maximized_desk_facts(1) [where p = "(2, 2)"]
                maximized_desk_facts(2) [where p = "(2, 2)" and h = "Some button_hook"]]
    by (auto simp add: h maximized_desk_facts fallback_answer_def button_hook_def)
qed

text \<open>The claim as stated fails: a hook that reports the maximize button, or a border, is
  answered with on a maximized window.\<close>

theorem C4_counterexample:
  "maximized_now (ready_styler\<lparr>titlebar_hook := Some button_hook\<rparr>, pointer_at (2, 2) maximized_desk)
   \<and> fst (handle_hittest (ready_styler\<lparr>titlebar_hook := Some button_hook\<rparr>,
                            pointer_at (2, 2) maximized_desk)) = Inr (True, HTMAXBUTTON)
   \<and> fst (handle_hittest (ready_styler\<lparr>titlebar_hook := Some edge_hook\<rparr>,
                            pointer_at (2, 2) maximized_desk)) = Inr (True, HTLEFT)
   \<and> HTMAXBUTTON \<noteq> HTCAPTION \<and> HTLEFT \<noteq> HTCAPTION"
  by (simp add: maximized_hittest maximized_desk_facts titlebar_decision button_hook_def
        edge_hook_def)
     (simp add: ht_defs)

text \<open>
  C7, as the code has it. When the title-bar hook raises while the hit-test takes the title-bar
  decision (the window is maximized, or the point is in no border band; no other call raises):
  an \<open>AttributeError\<close>, \<open>TypeError\<close> or \<open>ValueError\<close> is caught in \<open>_dispatch_titlebar\<close> and
  taken as no opinion, so the answer is the fallback (the caption code when the fallback is
  enabled and the vertical offset is below the fallback height, \<open>(False, 0)\<close> otherwise); any
  other exception leaves \<open>_dispatch_titlebar\<close>, is caught by the hit-test and answered
  \<open>(False, 0)\<close>, without the fallback. In neither case does it leave the hit-test.
\<close>

theorem C7_hook_failure_is_contained:
  assumes "no_faults w" and "titlebar_hook s = Some f" and "f (global_cursor_pos w) = Inl e"
      and "maximized_now (s, w)
           \<or> (scaled_border (s, w) \<le> fst (local_pos w)
              \<and> fst (local_pos w) \<le> win_width w - scaled_border (s, w)
              \<and> scaled_border (s, w) \<le> snd (local_pos w)
              \<and> snd (local_pos w) \<le> win_height w - scaled_border (s, w))"
  shows "fst (dispatch_titlebar (global_cursor_pos w) (snd (local_pos w)) (s, w)) =
           (if e = AttributeError \<or> e = TypeError \<or> e = ValueError
            then Inr (fallback_answer s (snd (local_pos w))) else Inl e)
       \<and> fst (handle_hittest (s, w)) =
           Inr (if e = AttributeError \<or> e = TypeError \<or> e = ValueError
                then fallback_answer s (snd (local_pos w)) else (False, 0))"
proof -
  have d: "handle_hittest (s, w) =
     try_except (dispatch_titlebar (global_cursor_pos w) (snd (local_pos w)))
       any_Exception (ret (False, 0)) (s, w)"
  proof (cases "maximized_now (s, w)")
    case True
    with assms(1) show ?thesis by (rule maximized_hittest)
  next
    case False
    with assms(1,4) show ?thesis by (simp add: interior_hittest)
  qed
  show ?thesis
    unfolding d titlebar_decision dispatch_titlebar_fallback
    using assms(2,3) by simp
qed

theorem C7_hook_failure_is_contained_witness:
  "fst (handle_hittest (ready_styler\<lparr>titlebar_hook := Some (\<lambda>p. Inl ValueError)\<rparr>,
                        pointer_at (200, 15) maximized_desk)) = Inr (True, HTCAPTION)
   \<and> fst (handle_hittest (ready_styler\<lparr>titlebar_hook := Some (\<lambda>p. Inl OtherError)\<rparr>,
                        pointer_at (200, 15) maximized_desk)) = Inr (False, 0)"
proof -
  have h: "TITLE_BAR_FALLBACK (ready_styler\<lparr>titlebar_hook := k\<rparr>)"
    "TITLE_BAR_FALLBACK_HEIGHT (ready_styler\<lparr>titlebar_hook := k\<rparr>) = 30" for k
    by (simp_all add: ready_styler_def new_styler_def)
  show ?thesis
    using C7_hook_failure_is_contained
            [of "pointer_at (200, 15) maximized_desk"
                "ready_styler\<lparr>titlebar_hook := Some (\<lambda>p. Inl ValueError)\<rparr>"
                "\<lambda>p. Inl ValueError" ValueError]
          C7_hook_failure_is_contained
            [of "pointer_at (200, 15) maximized_desk"
                "ready_styler\<lparr>titlebar_hook := Some (\<lambda>p. Inl OtherError)\<rparr>"
                "\<lambda>p. Inl OtherError" OtherError]
    by (simp add: maximized_desk_facts h fallback_answer_def)
qed

text \<open>The claim as stated fails: on the restored example window with the fallback enabled
  and height 30, a hook raising \<open>RuntimeError\<close> at the point (200,15) gives \<open>(False, 0)\<close>,
  not the caption code.\<close>

theorem C7_counterexample:
  "fst (handle_hittest (ready_styler\<lparr>titlebar_hook := Some raising_hook\<rparr>,
                        pointer_at (200, 15) desk)) = Inr (False, 0)
   \<and> fst (handle_hittest (ready_styler\<lparr>titlebar_hook := Some raising_hook\<rparr>,
                        pointer_at (200, 15) desk)) \<noteq> Inr (True, HTCAPTION)
   \<and> TITLE_BAR_FALLBACK (ready_styler\<lparr>titlebar_hook := Some raising_hook\<rparr>)
   \<and> snd (local_pos (pointer_at (200, 15) desk))
        < TITLE_BAR_FALLBACK_HEIGHT (ready_styler\<lparr>titlebar_hook := Some raising_hook\<rparr>)
   \<and> fst (handle_hittest (ready_styler, pointer_at (200, 15) desk)) = Inr (True, HTCAPTION)"
proof -
  have nm: "\<not> maximized_now (ready_styler\<lparr>titlebar_hook := k\<rparr>, pointer_at p desk)" for k p
    by (simp add: maximized_now_ok desk_no_faults) (simp add: pointer_at_def desk_def)
  have b: "scaled_border (ready_styler\<lparr>titlebar_hook := k\<rparr>, pointer_at p desk) = 8" for k p
    by (simp add: scaled_border_def example_defs py_int_def)
  have r: "ready_styler\<lparr>titlebar_hook := None\<rparr> = ready_styler"
    by (simp add: ready_styler_def new_styler_def)
  have i: "handle_hittest (ready_styler\<lparr>titlebar_hook := k\<rparr>, pointer_at (200, 15) desk) =
     try_except (dispatch_titlebar (200, 15) 15) any_Exception (ret (False, 0))
       (ready_styler\<lparr>titlebar_hook := k\<rparr>, pointer_at (200, 15) desk)" for k
    using interior_hittest [OF desk_no_faults(1) [where p = "(200, 15)"]
                               nm [where p = "(200, 15)" and k = k]]
    by (simp add: b desk_geometry)
  have h: "TITLE_BAR_FALLBACK (ready_styler\<lparr>titlebar_hook := k\<rparr>)"
    "TITLE_BAR_FALLBACK_HEIGHT (ready_styler\<lparr>titlebar_hook := k\<rparr>) = 30" for k
    by (simp_all add: ready_styler_def new_styler_def)
  have h0: "titlebar_hook ready_styler = None" "TITLE_BAR_FALLBACK ready_styler"
    "TITLE_BAR_FALLBACK_HEIGHT ready_styler = 30"
    by (simp_all add: ready_styler_def new_styler_def)
  show ?thesis
    using i [of "Some raising_hook"] i [of None]
    by (simp add: r titlebar_decision raising_hook_def h h0 desk_geometry fallback_answer_def
          HTCAPTION_def)
qed

section \<open>What the dispatcher catches\<close>

















section \<open>The debounced corner application\<close>

lemma apply_corners_now_round:
  assumes "no_faults w" and "truthy (hwnd s)" and "is_windows_11 s"
      and "\<not> maximized_now (s, w)" and "dwm_hresult w = 0"
  shows "apply_corners_now (s, w) =
          (Inr (), (s\<lparr>last_corner_apply := clock w\<rparr>,
                    w\<lparr>os_log := os_log w @
                       [Call_DwmSetWindowAttribute (as_handle (hwnd s))
                          DWMWA_WINDOW_CORNER_PREFERENCE DWMWCP_ROUND]\<rparr>))"
proof -
  have f: "\<And>c. faults w c = None" using assms(1) by (simp add: no_faults_def)
  have m: "isMaximized (s\<lparr>last_corner_apply := clock w\<rparr>, w) =
             (Inr False, (s\<lparr>last_corner_apply := clock w\<rparr>, w))"
    using assms(1,4) by (simp add: isMaximized_ok maximized_now_ok)
  have d: "set_dwm_corner_preference DWMWCP_ROUND (s\<lparr>last_corner_apply := clock w\<rparr>, w) =
          (Inr (), (s\<lparr>last_corner_apply := clock w\<rparr>,
                    w\<lparr>os_log := os_log w @
                       [Call_DwmSetWindowAttribute (as_handle (hwnd s))
                          DWMWA_WINDOW_CORNER_PREFERENCE DWMWCP_ROUND]\<rparr>))"
    using assms(2,3,5) by (simp add: set_dwm_corner_preference_def io_defs f)
  show ?thesis
    using assms(2,3)
    by (simp add: apply_corners_now_def apply_rounded_corners_def bind_def extern_def f
          self_set_def self_get_def m d try_except_def ret_def)
qed

lemma triggers_register_all:
  "no_faults (snd \<sigma>) \<Longrightarrow>
   length (pending (snd (triggers ts \<sigma>))) = length (pending (snd \<sigma>)) + length ts
   \<and> no_faults (snd (triggers ts \<sigma>))"
proof (induction ts arbitrary: \<sigma>)
  case Nil
  then show ?case by simp
next
  case (Cons t ts)
  obtain s w where \<sigma>: "\<sigma> = (s, w)" by (cases \<sigma>)
  have nf: "no_faults (w\<lparr>clock := t\<rparr>)" using Cons.prems \<sigma> by (simp add: no_faults_def)
  let ?\<sigma>' = "snd (debounced_apply_corners (at_time t \<sigma>))"
  have p: "length (pending (snd ?\<sigma>')) = length (pending w) + 1" "no_faults (snd ?\<sigma>')"
    using nf by (simp_all add: \<sigma> at_time_def debounced_ok) (simp add: no_faults_def)
  from Cons.IH [OF p(2)] p(1) show ?case by (simp add: \<sigma>)
qed

lemma no_faults_upd:
  "no_faults (w\<lparr>clock := t\<rparr>) = no_faults w"
  "no_faults (w\<lparr>pending := p\<rparr>) = no_faults w"
  "no_faults (w\<lparr>os_log := l\<rparr>) = no_faults w"
  by (simp_all add: no_faults_def)

lemma desk_fields:
  "zoomed desk = False" "win_id desk = 4242" "dwm_hresult desk = 0" "pending desk = []"
  "os_log desk = []" "clock desk = 1000"
  by (simp_all add: desk_def)

lemma ready_styler_fields:
  "hwnd ready_styler = Some 4242" "is_windows_11 ready_styler"
  "last_corner_apply ready_styler = 0" "corner_timer ready_styler = None"
  by (simp_all add: ready_styler_def new_styler_def)

lemma burst_of_two_pending:
  "pending (snd burst_of_two) = [(1000 + 1 / 100, 40), (1000 + 2 / 100, 30)]"
  by (simp add: burst_of_two_def at_time_def debounced_ok no_faults_upd desk_no_faults
        debounce_delay_def py_int_def desk_fields)

lemma after_burst_log:
  "os_log (snd after_burst) =
       [Call_DwmSetWindowAttribute 4242 DWMWA_WINDOW_CORNER_PREFERENCE DWMWCP_ROUND,
        Call_DwmSetWindowAttribute 4242 DWMWA_WINDOW_CORNER_PREFERENCE DWMWCP_ROUND]
   \<and> pending (snd after_burst) = []"
  by (simp add: after_burst_def burst_of_two_def at_time_def debounced_ok no_faults_upd
        desk_no_faults debounce_delay_def py_int_def desk_fields process_timers_def is_due_def
        bind_def try_except_def ret_def apply_corners_now_round maximized_now_ok
        ready_styler_fields truthy_def as_handle_def)

text \<open>
  C1 fails on the code. \<open>_debounced_apply_corners\<close> stops the timer object in its field and
  then registers the callback through the static \<open>singleShot\<close>, which that object does not
  own: nothing pending is cancelled. After the two triggers of the burst two callbacks are
  pending, and once the interval has passed both run: the corners are applied twice.
\<close>

theorem C1_burst_of_two_applies_twice:
  "pending (snd burst_of_two) = [(1000 + 1 / 100, 40), (1000 + 2 / 100, 30)]
   \<and> os_log (snd after_burst) =
       [Call_DwmSetWindowAttribute 4242 DWMWA_WINDOW_CORNER_PREFERENCE DWMWCP_ROUND,
        Call_DwmSetWindowAttribute 4242 DWMWA_WINDOW_CORNER_PREFERENCE DWMWCP_ROUND]
   \<and> pending (snd after_burst) = []"
  using burst_of_two_pending after_burst_log by (rule conjI)

end
